theory Spec2Isabelle
  imports Main "HOL-Library.AList"
begin

section \<open>Values shared by the modules\<close>

text \<open>
  JavaScript conditions test truthiness. For the values tested in this code base
  (\<open>string | undefined\<close> and \<open>object | undefined\<close>) an absent value is falsy, the
  empty string is falsy, every other string and every object is truthy.
\<close>

fun truthy :: "string option \<Rightarrow> bool" where
  "truthy None = False"
| "truthy (Some s) = (s \<noteq> [])"

text \<open>The bodies and query parameters handed to axios, as JSON values.\<close>

datatype json =
  JNull
  | JBool bool
  | JNum int
  | JStr string
  | JObj "(string \<times> json) list"

subsection \<open>The cookie jar (js-cookie)\<close>

text \<open>
  A cookie has a value and, when \<open>Cookies.set\<close> was given \<open>{ expires: n }\<close>, a lifetime
  of \<open>n\<close> days. The jar maps cookie names to cookies.
\<close>

record cookie =
  cvalue :: string
  expires :: "nat option"

type_synonym cookie_jar = "string \<rightharpoonup> cookie"

definition Cookies_get :: "cookie_jar \<Rightarrow> string \<Rightarrow> string option" where
  "Cookies_get jar name = map_option cvalue (jar name)"

definition Cookies_set :: "cookie_jar \<Rightarrow> string \<Rightarrow> string \<Rightarrow> nat \<Rightarrow> cookie_jar" where
  "Cookies_set jar name v days = jar(name \<mapsto> \<lparr>cvalue = v, expires = Some days\<rparr>)"

definition Cookies_remove :: "cookie_jar \<Rightarrow> string \<Rightarrow> cookie_jar" where
  "Cookies_remove jar name = jar(name := None)"

section \<open>The request client (lib/api.ts)\<close>

text \<open>
  A request is the axios configuration that leaves the request interceptor. The field
  \<open>url\<close> is the path given to \<open>api.get\<close>, \<open>api.post\<close>, ..., relative to the
  instance's \<open>baseURL\<close> (an environment variable, the same for every request).
\<close>

datatype http_method = GET | POST | PUT | DELETE | PATCH

record request =
  method_r :: http_method
  url :: string
  headers :: "(string \<times> string) list"
  params :: "json option"
  data :: "json option"
  withCredentials :: bool

text \<open>\<open>axios.create({ baseURL, headers: {'Content-Type': 'application/json'}, withCredentials: true })\<close>\<close>

definition api_create :: "http_method \<Rightarrow> string \<Rightarrow> json option \<Rightarrow> json option \<Rightarrow> request" where
  "api_create m path ps d =
     \<lparr>method_r = m, url = path,
      headers = [(''Content-Type'', ''application/json'')],
      params = ps, data = d, withCredentials = True\<rparr>"

text \<open>
  The request interceptor: it reads the cookie \<open>token\<close> from the jar when the request is
  made and sets the \<open>Authorization\<close> header when the value is truthy. axios runs it
  before the request leaves, in the task of the call; no code of the application runs
  in between, so the jar it reads is the jar at the call.
\<close>

definition interceptor :: "cookie_jar \<Rightarrow> request \<Rightarrow> request" where
  "interceptor jar config =
     (let token = Cookies_get jar ''token'' in
      if truthy token
      then (case token of
              Some t \<Rightarrow> config\<lparr>headers := AList.update ''Authorization'' (''Bearer '' @ t) (headers config)\<rparr>
            | None \<Rightarrow> config)
      else config)"

definition api_get :: "cookie_jar \<Rightarrow> string \<Rightarrow> json option \<Rightarrow> request" where
  "api_get jar path ps = interceptor jar (api_create GET path ps None)"

definition api_post :: "cookie_jar \<Rightarrow> string \<Rightarrow> json option \<Rightarrow> request" where
  "api_post jar path d = interceptor jar (api_create POST path None d)"

definition api_put :: "cookie_jar \<Rightarrow> string \<Rightarrow> json option \<Rightarrow> request" where
  "api_put jar path d = interceptor jar (api_create PUT path None d)"

definition api_delete :: "cookie_jar \<Rightarrow> string \<Rightarrow> request" where
  "api_delete jar path = interceptor jar (api_create DELETE path None None)"

definition api_patch :: "cookie_jar \<Rightarrow> string \<Rightarrow> json option \<Rightarrow> request" where
  "api_patch jar path d = interceptor jar (api_create PATCH path None d)"

subsection \<open>taskApi\<close>

definition taskApi_getTasks :: "cookie_jar \<Rightarrow> string \<Rightarrow> json option \<Rightarrow> request" where
  "taskApi_getTasks jar userId ps = api_get jar (''/api/'' @ userId @ ''/tasks'') ps"

definition taskApi_createTask :: "cookie_jar \<Rightarrow> string \<Rightarrow> json \<Rightarrow> request" where
  "taskApi_createTask jar userId d = api_post jar (''/api/'' @ userId @ ''/tasks'') (Some d)"

definition taskApi_getTask :: "cookie_jar \<Rightarrow> string \<Rightarrow> string \<Rightarrow> request" where
  "taskApi_getTask jar userId taskId = api_get jar (''/api/'' @ userId @ ''/tasks/'' @ taskId) None"

definition taskApi_updateTask :: "cookie_jar \<Rightarrow> string \<Rightarrow> string \<Rightarrow> json \<Rightarrow> request" where
  "taskApi_updateTask jar userId taskId d =
     api_put jar (''/api/'' @ userId @ ''/tasks/'' @ taskId) (Some d)"

definition taskApi_deleteTask :: "cookie_jar \<Rightarrow> string \<Rightarrow> string \<Rightarrow> request" where
  "taskApi_deleteTask jar userId taskId = api_delete jar (''/api/'' @ userId @ ''/tasks/'' @ taskId)"

text \<open>
  \<open>toggleComplete(userId, taskId, completed = true)\<close>: the third argument is optional,
  \<open>None\<close> is the call that leaves it out.
\<close>

definition taskApi_toggleComplete :: "cookie_jar \<Rightarrow> string \<Rightarrow> string \<Rightarrow> bool option \<Rightarrow> request" where
  "taskApi_toggleComplete jar userId taskId arg =
     (let completed = (case arg of None \<Rightarrow> True | Some b \<Rightarrow> b) in
      api_patch jar (''/api/'' @ userId @ ''/tasks/'' @ taskId @ ''/complete'')
        (Some (JObj [(''completed'', JBool completed)])))"

definition taskApi_markTaskComplete :: "cookie_jar \<Rightarrow> string \<Rightarrow> string \<Rightarrow> request" where
  "taskApi_markTaskComplete jar userId taskId =
     api_patch jar (''/api/'' @ userId @ ''/tasks/'' @ taskId @ ''/complete'')
       (Some (JObj [(''completed'', JBool True)]))"

subsection \<open>authApi\<close>

definition credentials :: "string \<Rightarrow> string \<Rightarrow> json" where
  "credentials email password = JObj [(''email'', JStr email), (''password'', JStr password)]"

definition authApi_signin :: "cookie_jar \<Rightarrow> json \<Rightarrow> request" where
  "authApi_signin jar d = api_post jar ''/api/auth/signin'' (Some d)"

definition authApi_signup :: "cookie_jar \<Rightarrow> json \<Rightarrow> request" where
  "authApi_signup jar d = api_post jar ''/api/auth/signup'' (Some d)"

definition authApi_signout :: "cookie_jar \<Rightarrow> request" where
  "authApi_signout jar = api_post jar ''/api/auth/signout'' None"

definition authApi_session :: "cookie_jar \<Rightarrow> request" where
  "authApi_session jar = api_get jar ''/api/auth/session'' None"

definition authApi_signInEmail :: "cookie_jar \<Rightarrow> json \<Rightarrow> request" where
  "authApi_signInEmail jar d = api_post jar ''/api/auth/sign-in/email'' (Some d)"

definition authApi_signUpEmail :: "cookie_jar \<Rightarrow> json \<Rightarrow> request" where
  "authApi_signUpEmail jar d = api_post jar ''/api/auth/sign-up/email'' (Some d)"

text \<open>Every operation the two objects export, with its arguments.\<close>

datatype api_call =
  GetTasks string "json option"
  | CreateTask string json
  | GetTask string string
  | UpdateTask string string json
  | DeleteTask string string
  | ToggleComplete string string "bool option"
  | MarkTaskComplete string string
  | Signin json
  | Signup json
  | Signout
  | Session
  | SignInEmail json
  | SignUpEmail json

fun issue :: "cookie_jar \<Rightarrow> api_call \<Rightarrow> request" where
  "issue jar (GetTasks u ps) = taskApi_getTasks jar u ps"
| "issue jar (CreateTask u d) = taskApi_createTask jar u d"
| "issue jar (GetTask u t) = taskApi_getTask jar u t"
| "issue jar (UpdateTask u t d) = taskApi_updateTask jar u t d"
| "issue jar (DeleteTask u t) = taskApi_deleteTask jar u t"
| "issue jar (ToggleComplete u t c) = taskApi_toggleComplete jar u t c"
| "issue jar (MarkTaskComplete u t) = taskApi_markTaskComplete jar u t"
| "issue jar (Signin d) = authApi_signin jar d"
| "issue jar (Signup d) = authApi_signup jar d"
| "issue jar Signout = authApi_signout jar"
| "issue jar Session = authApi_session jar"
| "issue jar (SignInEmail d) = authApi_signInEmail jar d"
| "issue jar (SignUpEmail d) = authApi_signUpEmail jar d"

definition authorization :: "request \<Rightarrow> string option" where
  "authorization r = map_of (headers r) ''Authorization''"

section \<open>The session store (lib/auth-context.tsx)\<close>

record User =
  id_U :: string
  email_U :: string
  createdAt_U :: "string option"
  updatedAt_U :: "string option"
  created_at_U :: "string option"
  updated_at_U :: "string option"

text \<open>
  What the backend answers to one request. axios rejects the promise on a transport
  failure and on a status outside 2xx; otherwise \<open>response.data\<close> is the parsed body:
  \<open>null\<close> (\<open>None\<close>) or an object whose fields \<open>user\<close> and \<open>access_token\<close> may be absent.
\<close>

record payload =
  user_p :: "User option"
  access_token :: "string option"

datatype reply = Transport_failure | Http_error nat | Success "payload option"

datatype js_error = Network_Error | Status_Error nat | TypeError | Error string

text \<open>How a call of an async function ends for its caller.\<close>

datatype outcome = Resolved | Rejected string

text \<open>\<open>await api...\<close>: the value of the awaited promise, or the error thrown at the await.\<close>

fun await :: "reply \<Rightarrow> js_error + payload option" where
  "await Transport_failure = Inl Network_Error"
| "await (Http_error n) = Inl (Status_Error n)"
| "await (Success d) = Inr d"

text \<open>
  \<open>const response = await ...; response.data.user\<close>: reading a field of \<open>null\<close>
  throws a TypeError inside the same \<open>try\<close> block.
\<close>

fun response_data :: "reply \<Rightarrow> js_error + payload" where
  "response_data r =
     (case await r of
        Inl e \<Rightarrow> Inl e
      | Inr None \<Rightarrow> Inl TypeError
      | Inr (Some d) \<Rightarrow> Inr d)"

text \<open>
  An async function runs without interruption up to its \<open>await\<close>, and again from the
  answer to its end; state updates made in one such run are applied together (React
  batches them). Between the two runs the function is a continuation waiting for its
  answer, and anything else may run.
\<close>

datatype caller = Direct | From_signup

datatype cont =
  ValidateToken_await
  | Login_await caller
  | Signup_await string string
  | Logout_await

text \<open>
  The provider's state (\<open>user\<close>, \<open>token\<close>, \<open>isLoading\<close>) together with what its
  operations read and write outside it: the cookie jar, the requests sent so far, the
  lines written by \<open>console.error\<close>, and the continuations waiting for an answer.
\<close>

record world =
  user :: "User option"
  token :: "string option"
  isLoading :: bool
  cookies :: cookie_jar
  requests :: "request list"
  console :: "(string \<times> js_error) list"
  pending :: "cont list"

text \<open>The three \<open>useState\<close> initial values, before the mount effect has run.\<close>

definition initial_world :: "cookie_jar \<Rightarrow> world" where
  "initial_world jar =
     \<lparr>user = None, token = None, isLoading = True, cookies = jar,
      requests = [], console = [], pending = []\<rparr>"

subsection \<open>The mount effect\<close>

text \<open>\<open>validateToken()\<close> up to its \<open>await authApi.session()\<close>.\<close>

definition validateToken_start :: "world \<Rightarrow> world" where
  "validateToken_start w =
     w\<lparr>requests := requests w @ [authApi_session (cookies w)],
       pending := pending w @ [ValidateToken_await]\<rparr>"

text \<open>\<open>validateToken()\<close> from the answer on.\<close>

definition validateToken_resume :: "reply \<Rightarrow> world \<Rightarrow> world" where
  "validateToken_resume r w0 =
     (let w = w0\<lparr>pending := remove1 ValidateToken_await (pending w0)\<rparr> in
      case response_data r of
        Inr d \<Rightarrow>
          (case user_p d of
             Some u \<Rightarrow> w\<lparr>user := Some u\<rparr>
           | None \<Rightarrow> w\<lparr>cookies := Cookies_remove (cookies w) ''token'', token := None\<rparr>)
      | Inl e \<Rightarrow>
          w\<lparr>console := console w @ [(''Token validation failed:'', e)],
            cookies := Cookies_remove (cookies w) ''token'',
            token := None\<rparr>)"

text \<open>
  The body of the \<open>useEffect\<close>: \<open>validateToken()\<close> is called and not awaited, so
  \<open>setIsLoading(false)\<close> runs as soon as the request has been sent.
\<close>

definition initialize :: "world \<Rightarrow> world" where
  "initialize w =
     (let storedToken = Cookies_get (cookies w) ''token'';
          w1 = (if truthy storedToken
                then validateToken_start (w\<lparr>token := storedToken\<rparr>)
                else w)
      in w1\<lparr>isLoading := False\<rparr>)"

subsection \<open>login\<close>

definition login_start :: "caller \<Rightarrow> string \<Rightarrow> string \<Rightarrow> world \<Rightarrow> world" where
  "login_start c email password w =
     w\<lparr>isLoading := True,
       requests := requests w @ [authApi_signin (cookies w) (credentials email password)],
       pending := pending w @ [Login_await c]\<rparr>"

text \<open>The \<open>try\<close> block after the await: the new world, or the error thrown.\<close>

definition login_try :: "reply \<Rightarrow> world \<Rightarrow> js_error + world" where
  "login_try r w =
     (case response_data r of
        Inl e \<Rightarrow> Inl e
      | Inr d \<Rightarrow>
          (case user_p d of
             None \<Rightarrow> Inl (Error ''Login failed'')
           | Some u \<Rightarrow>
               (case access_token d of
                  None \<Rightarrow> Inl (Error ''Login failed'')
                | Some a \<Rightarrow>
                    if a \<noteq> []
                    then Inr (w\<lparr>user := Some u,
                                cookies := Cookies_set (cookies w) ''token'' a 7,
                                token := Some a\<rparr>)
                    else Inl (Error ''Login failed''))))"

definition login_resume :: "caller \<Rightarrow> reply \<Rightarrow> world \<Rightarrow> world \<times> outcome" where
  "login_resume c r w0 =
     (let w = w0\<lparr>pending := remove1 (Login_await c) (pending w0)\<rparr> in
      case login_try r w of
        Inr w' \<Rightarrow> (w'\<lparr>isLoading := False\<rparr>, Resolved)
      | Inl e \<Rightarrow>
          (w\<lparr>console := console w @ [(''Login error:'', e)], isLoading := False\<rparr>,
           Rejected ''Invalid email or password''))"

text \<open>One call of \<open>login\<close> that nothing interrupts; \<open>r\<close> answers its sign-in request.\<close>

definition login :: "string \<Rightarrow> string \<Rightarrow> reply \<Rightarrow> world \<Rightarrow> world \<times> outcome" where
  "login email password r w = login_resume Direct r (login_start Direct email password w)"

subsection \<open>signup\<close>

definition signup_start :: "string \<Rightarrow> string \<Rightarrow> world \<Rightarrow> world" where
  "signup_start email password w =
     w\<lparr>isLoading := True,
       requests := requests w @ [authApi_signup (cookies w) (credentials email password)],
       pending := pending w @ [Signup_await email password]\<rparr>"

text \<open>
  From the sign-up answer on. \<open>None\<close> as outcome: the function is waiting again, inside
  \<open>await login(email, password)\<close>.
\<close>

definition signup_resume :: "string \<Rightarrow> string \<Rightarrow> reply \<Rightarrow> world \<Rightarrow> world \<times> outcome option" where
  "signup_resume email password r w0 =
     (let w = w0\<lparr>pending := remove1 (Signup_await email password) (pending w0)\<rparr>;
          failed = (\<lambda>e. (w\<lparr>console := console w @ [(''Signup error:'', e)], isLoading := False\<rparr>,
                          Some (Rejected ''Signup failed'')));
          fallback = (login_start From_signup email password w, None)
      in
      case response_data r of
        Inl e \<Rightarrow> failed e
      | Inr d \<Rightarrow>
          (case user_p d of
             None \<Rightarrow> fallback
           | Some u \<Rightarrow>
               (case access_token d of
                  None \<Rightarrow> fallback
                | Some a \<Rightarrow>
                    if a \<noteq> []
                    then (w\<lparr>user := Some u,
                             cookies := Cookies_set (cookies w) ''token'' a 7,
                             token := Some a,
                             isLoading := False\<rparr>, Some Resolved)
                    else fallback)))"

text \<open>\<open>signup\<close> after its \<open>await login(...)\<close> has ended with the given outcome.\<close>

definition signup_finish :: "outcome \<Rightarrow> world \<Rightarrow> world \<times> outcome" where
  "signup_finish out w =
     (case out of
        Resolved \<Rightarrow> (w\<lparr>isLoading := False\<rparr>, Resolved)
      | Rejected m \<Rightarrow>
          (w\<lparr>console := console w @ [(''Signup error:'', Error m)], isLoading := False\<rparr>,
           Rejected ''Signup failed''))"

subsection \<open>logout\<close>

definition logout_start :: "world \<Rightarrow> world" where
  "logout_start w =
     w\<lparr>requests := requests w @ [authApi_signout (cookies w)],
       pending := pending w @ [Logout_await]\<rparr>"

definition logout_resume :: "reply \<Rightarrow> world \<Rightarrow> world \<times> outcome" where
  "logout_resume r w0 =
     (let w = w0\<lparr>pending := remove1 Logout_await (pending w0)\<rparr>;
          w1 = (case await r of
                  Inl e \<Rightarrow> w\<lparr>console := console w @ [(''Logout error:'', e)]\<rparr>
                | Inr d \<Rightarrow> w)
      in (w1\<lparr>cookies := Cookies_remove (cookies w1) ''token'', token := None, user := None\<rparr>,
          Resolved))"

text \<open>One call of \<open>logout\<close> that nothing interrupts; \<open>r\<close> answers its sign-out request.\<close>

definition logout :: "reply \<Rightarrow> world \<Rightarrow> world \<times> outcome" where
  "logout r w = logout_resume r (logout_start w)"

subsection \<open>Runs of the store\<close>

text \<open>
  What can happen to a mounted provider: a view calls one of the three operations, or
  the answer to a request that is still waiting arrives. Answers arrive in any order.
\<close>

datatype event =
  Call_login string string
  | Call_signup string string
  | Call_logout
  | Answer cont reply

fun resume :: "cont \<Rightarrow> reply \<Rightarrow> world \<Rightarrow> world" where
  "resume ValidateToken_await r w = validateToken_resume r w"
| "resume (Login_await Direct) r w = fst (login_resume Direct r w)"
| "resume (Login_await From_signup) r w =
     (case login_resume From_signup r w of (w', out) \<Rightarrow> fst (signup_finish out w'))"
| "resume (Signup_await email password) r w = fst (signup_resume email password r w)"
| "resume Logout_await r w = fst (logout_resume r w)"

fun step :: "event \<Rightarrow> world \<Rightarrow> world option" where
  "step (Call_login email password) w = Some (login_start Direct email password w)"
| "step (Call_signup email password) w = Some (signup_start email password w)"
| "step Call_logout w = Some (logout_start w)"
| "step (Answer k r) w = (if k \<in> set (pending w) then Some (resume k r w) else None)"

fun run :: "world \<Rightarrow> event list \<Rightarrow> world option" where
  "run w [] = Some w"
| "run w (e # es) = (case step e w of None \<Rightarrow> None | Some w' \<Rightarrow> run w' es)"

section \<open>The auth shim's useSession\<close>

record session =
  id_s :: string
  token_s :: string

record session_data =
  user_d :: "User option"
  session_d :: session

record use_session =
  data_s :: "session_data option"
  isLoading_s :: bool
  isPending :: bool
  isAuthenticated :: bool

definition useSession :: "cookie_jar \<Rightarrow> use_session" where
  "useSession jar =
     (let tok = Cookies_get jar ''token'' in
      \<lparr>data_s = (if truthy tok
                 then (case tok of
                         Some t \<Rightarrow> Some \<lparr>user_d = None, session_d = \<lparr>id_s = t, token_s = t\<rparr>\<rparr>
                       | None \<Rightarrow> None)
                 else None),
       isLoading_s = False,
       isPending = False,
       isAuthenticated = truthy tok\<rparr>)"

section \<open>The dashboard's task filter (app/dashboard/page.tsx)\<close>

record Task =
  id_T :: string
  title :: string
  description :: "string option"
  completed :: bool
  created_at :: string
  updated_at :: string
  user_id :: string







subsection \<open>The specification's words\<close>






subsection \<open>What is known of the engine's toLowerCase\<close>






section \<open>Example values\<close>

definition u0 :: User where
  "u0 = \<lparr>id_U = ''1'', email_U = ''a@b.com'', createdAt_U = None, updatedAt_U = None,
          created_at_U = None, updated_at_U = None\<rparr>"

definition stored_abc :: cookie_jar where
  "stored_abc = Map.empty(''token'' \<mapsto> \<lparr>cvalue = ''abc'', expires = Some 7\<rparr>)"





section \<open>Properties of the request client\<close>

lemma authorization_interceptor:
  "authorization (interceptor jar (api_create m path ps d)) =
     (case Cookies_get jar ''token'' of
        None \<Rightarrow> None
      | Some t \<Rightarrow> if t = [] then None else Some (''Bearer '' @ t))"
  by (simp add: authorization_def interceptor_def api_create_def Let_def split: option.splits)

lemma authorization_issue:
  "authorization (issue jar call) =
     (case Cookies_get jar ''token'' of
        None \<Rightarrow> None
      | Some t \<Rightarrow> if t = [] then None else Some (''Bearer '' @ t))"
  by (cases call)
     (simp_all only: issue.simps taskApi_getTasks_def taskApi_createTask_def taskApi_getTask_def
        taskApi_updateTask_def taskApi_deleteTask_def taskApi_toggleComplete_def
        taskApi_markTaskComplete_def authApi_signin_def authApi_signup_def authApi_signout_def
        authApi_session_def authApi_signInEmail_def authApi_signUpEmail_def
        api_get_def api_post_def api_put_def api_delete_def api_patch_def Let_def
        authorization_interceptor)

text \<open>
  C2. Every operation of \<open>taskApi\<close> and \<open>authApi\<close> builds its request from the cookie
  jar as it is when the operation is called, and from nothing else of the session
  store. When the jar holds a token (a non-empty value) under the name \<open>token\<close>, the
  request carries \<open>Authorization: Bearer <token>\<close> with that value; when the jar holds no
  cookie \<open>token\<close>, the request carries no \<open>Authorization\<close> header. (A cookie \<open>token\<close>
  whose value is the empty string holds no token, and no header is attached either.)
\<close>

theorem request_carries_fresh_token:
  "(Cookies_get jar ''token'' = Some t \<and> t \<noteq> [] \<longrightarrow>
      authorization (issue jar call) = Some (''Bearer '' @ t)) \<and>
   (Cookies_get jar ''token'' = None \<longrightarrow> authorization (issue jar call) = None) \<and>
   (Cookies_get jar ''token'' = Some [] \<longrightarrow> authorization (issue jar call) = None)"
  by (simp add: authorization_issue)

theorem request_carries_fresh_token_witness:
  "authorization (issue (Map.empty(''token'' \<mapsto> \<lparr>cvalue = ''abc'', expires = Some 7\<rparr>)) Session)
     = Some ''Bearer abc'' \<and>
   authorization (issue Map.empty (DeleteTask ''1'' ''2'')) = None"
  using request_carries_fresh_token
          [of "Map.empty(''token'' \<mapsto> \<lparr>cvalue = ''abc'', expires = Some 7\<rparr>)" "''abc''" Session]
        request_carries_fresh_token [of Map.empty "''x''" "DeleteTask ''1'' ''2''"]
  by (simp add: Cookies_get_def)

text \<open>
  C9. For every user id and task id, \<open>markTaskComplete(userId, taskId)\<close> and
  \<open>toggleComplete(userId, taskId)\<close> with the third argument left out build the same
  request: method PATCH, path \<open>/api/{userId}/tasks/{taskId}/complete\<close>, body
  \<open>{completed: true}\<close>.
\<close>

theorem markTaskComplete_is_default_toggleComplete:
  "taskApi_markTaskComplete jar userId taskId = taskApi_toggleComplete jar userId taskId None \<and>
   method_r (taskApi_markTaskComplete jar userId taskId) = PATCH \<and>
   url (taskApi_markTaskComplete jar userId taskId)
     = ''/api/'' @ userId @ ''/tasks/'' @ taskId @ ''/complete'' \<and>
   data (taskApi_markTaskComplete jar userId taskId) = Some (JObj [(''completed'', JBool True)])"
  by (simp add: taskApi_markTaskComplete_def taskApi_toggleComplete_def api_patch_def
        interceptor_def api_create_def Let_def split: option.splits)

section \<open>Properties of the session store\<close>

text \<open>
  C3. When the application starts with no cookie \<open>token\<close> in the jar, the mount effect
  ends with \<open>isLoading = false\<close>, \<open>user = null\<close>, \<open>token = null\<close>; it has sent no
  request (so none to \<open>/api/auth/session\<close>), nothing is left waiting, and the jar is
  as it was.
\<close>

theorem initialize_without_token:
  assumes "jar ''token'' = None"
  shows "isLoading (initialize (initial_world jar)) = False \<and>
         user (initialize (initial_world jar)) = None \<and>
         token (initialize (initial_world jar)) = None \<and>
         requests (initialize (initial_world jar)) = [] \<and>
         pending (initialize (initial_world jar)) = [] \<and>
         cookies (initialize (initial_world jar)) = jar"
  using assms by (simp add: initialize_def initial_world_def Cookies_get_def)

theorem initialize_without_token_witness:
  "isLoading (initialize (initial_world Map.empty)) = False \<and>
   user (initialize (initial_world Map.empty)) = None \<and>
   token (initialize (initial_world Map.empty)) = None \<and>
   requests (initialize (initial_world Map.empty)) = []"
  using initialize_without_token [of Map.empty] by simp

text \<open>
  C4. What the mount effect does with the stored token \<open>abc\<close>: when it has run, the
  request to \<open>/api/auth/session\<close> has been sent and \<open>validateToken\<close> is still waiting
  for the answer, \<open>token\<close> is \<open>abc\<close>, \<open>user\<close> is still \<open>null\<close>, and \<open>isLoading\<close> is
  already \<open>false\<close>.
\<close>

theorem initialize_not_loading_while_validating:
  "isLoading (initialize (initial_world
      (Map.empty(''token'' \<mapsto> \<lparr>cvalue = ''abc'', expires = Some 7\<rparr>)))) = False \<and>
   pending (initialize (initial_world
      (Map.empty(''token'' \<mapsto> \<lparr>cvalue = ''abc'', expires = Some 7\<rparr>)))) = [ValidateToken_await] \<and>
   map url (requests (initialize (initial_world
      (Map.empty(''token'' \<mapsto> \<lparr>cvalue = ''abc'', expires = Some 7\<rparr>))))) = [''/api/auth/session''] \<and>
   token (initialize (initial_world
      (Map.empty(''token'' \<mapsto> \<lparr>cvalue = ''abc'', expires = Some 7\<rparr>)))) = Some ''abc'' \<and>
   user (initialize (initial_world
      (Map.empty(''token'' \<mapsto> \<lparr>cvalue = ''abc'', expires = Some 7\<rparr>)))) = None"
  by (simp add: initialize_def initial_world_def Cookies_get_def validateToken_start_def
      authApi_session_def api_get_def interceptor_def api_create_def Let_def)

lemma login_try_accepted:
  "a \<noteq> [] \<Longrightarrow> login_try (Success (Some \<lparr>user_p = Some u, access_token = Some a\<rparr>)) w =
     Inr (w\<lparr>user := Some u, cookies := Cookies_set (cookies w) ''token'' a 7, token := Some a\<rparr>)"
  by (simp add: login_try_def)

text \<open>
  C5. When the answer to the sign-in request holds a user and an access token (a
  non-empty string), \<open>login\<close> ends, for every email, password and starting state, with
  \<open>user\<close> and \<open>token\<close> set to the two values of the answer, with the jar changed in the
  one cookie \<open>token\<close>, which holds the access token and expires after 7 days, with
  \<open>isLoading = false\<close>, and its promise resolved.
\<close>

theorem login_accepted:
  assumes "r = Success (Some \<lparr>user_p = Some u, access_token = Some a\<rparr>)" and "a \<noteq> []"
  shows "user (fst (login email password r w)) = Some u \<and>
         token (fst (login email password r w)) = Some a \<and>
         cookies (fst (login email password r w))
           = (cookies w)(''token'' \<mapsto> \<lparr>cvalue = a, expires = Some 7\<rparr>) \<and>
         isLoading (fst (login email password r w)) = False \<and>
         snd (login email password r w) = Resolved"
  using assms
  by (simp add: login_def login_resume_def login_start_def login_try_accepted Let_def
      Cookies_set_def)

theorem login_accepted_witness:
  "user (fst (login ''a@b.com'' ''pw''
      (Success (Some \<lparr>user_p = Some u0, access_token = Some ''tok''\<rparr>))
      (initialize (initial_world Map.empty)))) = Some u0 \<and>
   token (fst (login ''a@b.com'' ''pw''
      (Success (Some \<lparr>user_p = Some u0, access_token = Some ''tok''\<rparr>))
      (initialize (initial_world Map.empty)))) = Some ''tok'' \<and>
   cookies (fst (login ''a@b.com'' ''pw''
      (Success (Some \<lparr>user_p = Some u0, access_token = Some ''tok''\<rparr>))
      (initialize (initial_world Map.empty)))) ''token''
     = Some \<lparr>cvalue = ''tok'', expires = Some 7\<rparr>"
  using login_accepted
      [of "Success (Some \<lparr>user_p = Some u0, access_token = Some ''tok''\<rparr>)" u0 "''tok''"
        "''a@b.com''" "''pw''" "initialize (initial_world Map.empty)"]
  by simp

lemma login_try_rejected:
  assumes "r = Transport_failure \<or> r = Http_error n \<or> r = Success None \<or>
      (r = Success (Some d) \<and>
        (user_p d = None \<or> access_token d = None \<or> access_token d = Some []))"
  shows "\<exists>e. login_try r w = Inl e"
  using assms by (auto simp: login_try_def split: option.splits)

text \<open>
  C6. When the sign-in request fails in transport, is rejected by the backend with an
  error status, or is answered with a body that is \<open>null\<close> or lacks the user or the
  access token (an empty access token included), \<open>login\<close> leaves \<open>user\<close>, \<open>token\<close> and
  the cookie jar as they were, ends with \<open>isLoading = false\<close>, and rejects with the one
  message \<open>Invalid email or password\<close>. The caller sees the same rejection for a transport
  failure as for a rejection by the backend.
\<close>

theorem login_failure_generic:
  assumes "r = Transport_failure \<or> r = Http_error n \<or> r = Success None \<or>
      (r = Success (Some d) \<and>
        (user_p d = None \<or> access_token d = None \<or> access_token d = Some []))"
  shows "user (fst (login email password r w)) = user w \<and>
         token (fst (login email password r w)) = token w \<and>
         cookies (fst (login email password r w)) = cookies w \<and>
         isLoading (fst (login email password r w)) = False \<and>
         snd (login email password r w) = Rejected ''Invalid email or password'' \<and>
         snd (login email password Transport_failure w)
           = snd (login email password (Http_error n) w)"
proof -
  obtain e where "login_try r (login_start Direct email password w
      \<lparr>pending := remove1 (Login_await Direct)
          (pending (login_start Direct email password w))\<rparr>) = Inl e"
    using login_try_rejected [OF assms] by blast
  moreover have "snd (login email password Transport_failure w)
      = snd (login email password (Http_error n) w)"
    by (simp add: login_def login_resume_def login_try_def Let_def)
  ultimately show ?thesis
    by (simp add: login_def login_resume_def Let_def login_start_def)
qed

theorem login_failure_generic_witness:
  "user (fst (login ''a@b.com'' ''pw'' (Http_error 401) (initialize (initial_world Map.empty))))
     = None \<and>
   isLoading (fst (login ''a@b.com'' ''pw'' (Http_error 401) (initialize (initial_world Map.empty))))
     = False \<and>
   snd (login ''a@b.com'' ''pw'' (Http_error 401) (initialize (initial_world Map.empty)))
     = Rejected ''Invalid email or password'' \<and>
   snd (login ''a@b.com'' ''pw'' Transport_failure (initialize (initial_world Map.empty)))
     = Rejected ''Invalid email or password''"
  using login_failure_generic
      [of "Http_error 401" 401 "\<lparr>user_p = None, access_token = None\<rparr>" "''a@b.com''" "''pw''"
        "initialize (initial_world Map.empty)"]
  by (simp add: initialize_def initial_world_def Cookies_get_def)

text \<open>
  C7. Whatever the answer to the sign-out request, \<open>logout\<close> ends with \<open>user = null\<close>,
  \<open>token = null\<close> and no cookie \<open>token\<close> in the jar, and its promise resolved: the caller
  never sees a failure. A failed request adds one \<open>Logout error:\<close> line to the console,
  a successful one adds none.
\<close>

theorem logout_always_clears:
  "user (fst (logout r w)) = None \<and>
   token (fst (logout r w)) = None \<and>
   cookies (fst (logout r w)) ''token'' = None \<and>
   snd (logout r w) = Resolved \<and>
   console (fst (logout r w)) =
     (case await r of Inl e \<Rightarrow> console w @ [(''Logout error:'', e)] | Inr d \<Rightarrow> console w)"
  by (simp add: logout_def logout_resume_def logout_start_def Let_def Cookies_remove_def
      split: sum.splits)

text \<open>
  C1. A run of the mounted provider that ends with a user and no token. The stale
  token \<open>abc\<close> is stored, so the mount effect starts \<open>validateToken\<close> and goes on
  without waiting for it. \<open>login\<close> is called and its answer sets \<open>user\<close>, \<open>token\<close>
  and the cookie to the fresh token. Then the answer to the validation arrives, 401:
  the \<open>catch\<close> block removes the cookie and sets \<open>token\<close> to \<open>null\<close>, and \<open>user\<close>
  stays set.
\<close>

theorem late_validation_failure_leaves_user_without_token:
  "run (initialize (initial_world stored_abc))
     [Call_login ''a@b.com'' ''pw'',
      Answer (Login_await Direct) (Success (Some \<lparr>user_p = Some u0, access_token = Some ''fresh''\<rparr>)),
      Answer ValidateToken_await (Http_error 401)]
   = Some \<lparr>user = Some u0, token = None, isLoading = False,
           cookies = Map.empty,
           requests = [authApi_session stored_abc,
                       authApi_signin stored_abc (credentials ''a@b.com'' ''pw'')],
           console = [(''Token validation failed:'', Status_Error 401)],
           pending = []\<rparr>"
  by (simp add: stored_abc_def initialize_def initial_world_def Cookies_get_def
      validateToken_start_def login_start_def login_resume_def login_try_def
      validateToken_resume_def Cookies_set_def Cookies_remove_def Let_def)

section \<open>Properties of the dashboard's filter\<close>


























section \<open>Properties of the auth shim\<close>

text \<open>
  C10, as stated: \<open>isAuthenticated\<close> is true exactly when the cookie \<open>token\<close> is
  present. It fails for a cookie \<open>token\<close> that is present with the empty string as its
  value: the value is falsy, so \<open>isAuthenticated\<close> is false.
\<close>

theorem useSession_empty_cookie_counterexample:
  "\<not> (\<forall>jar. isAuthenticated (useSession jar) = (jar ''token'' \<noteq> None))"
proof
  assume "\<forall>jar. isAuthenticated (useSession jar) = (jar ''token'' \<noteq> None)"
  then have "isAuthenticated (useSession (Map.empty(''token'' \<mapsto> \<lparr>cvalue = [], expires = None\<rparr>)))"
    by simp
  then show False by (simp add: useSession_def Cookies_get_def)
qed

text \<open>
  C10, amended: for every state of the cookie jar, \<open>useSession\<close> returns
  \<open>isLoading = false\<close> and \<open>isPending = false\<close>; \<open>isAuthenticated\<close> is true exactly when
  the cookie \<open>token\<close> is present with a non-empty value; in that case \<open>data\<close> holds
  \<open>user = null\<close> and a session whose id and token both equal the raw cookie value, and
  otherwise \<open>data\<close> is \<open>null\<close>. The result is computed from the jar alone: no request is
  sent and no user is ever resolved.
\<close>

theorem useSession_reads_cookie_only:
  "isLoading_s (useSession jar) = False \<and>
   isPending (useSession jar) = False \<and>
   isAuthenticated (useSession jar) = (\<exists>t. Cookies_get jar ''token'' = Some t \<and> t \<noteq> []) \<and>
   data_s (useSession jar) =
     (case Cookies_get jar ''token'' of
        None \<Rightarrow> None
      | Some t \<Rightarrow>
          if t = [] then None
          else Some \<lparr>user_d = None, session_d = \<lparr>id_s = t, token_s = t\<rparr>\<rparr>) \<and>
   (\<forall>d. data_s (useSession jar) = Some d \<longrightarrow>
      user_d d = None \<and> Cookies_get jar ''token'' = Some (token_s (session_d d)))"
  by (cases "Cookies_get jar ''token''") (auto simp: useSession_def Let_def)

theorem useSession_reads_cookie_only_witness:
  "isAuthenticated (useSession stored_abc) \<and>
   data_s (useSession stored_abc)
     = Some \<lparr>user_d = None, session_d = \<lparr>id_s = ''abc'', token_s = ''abc''\<rparr>\<rparr> \<and>
   user_d \<lparr>user_d = None, session_d = \<lparr>id_s = ''abc'', token_s = ''abc''\<rparr>\<rparr> = None \<and>
   \<not> isAuthenticated (useSession Map.empty)"
  using useSession_reads_cookie_only [of stored_abc] useSession_reads_cookie_only [of Map.empty]
  by (simp add: stored_abc_def Cookies_get_def)

end
